theory Spec2Isabelle
  imports Complex_Main "HOL-Library.Sublist" "HOL-Library.AList"
begin

section \<open>JavaScript strings and values\<close>

text \<open>
  Strings are modelled as \<open>string\<close> (lists of 8-bit characters), one \<open>char\<close> per UTF-16
  code unit: the model covers text whose code units are below 256, where
  \<open>toLowerCase\<close> folds A to Z and U+00C0 to U+00DE except U+00D7, each to the code unit
  32 above. Numbers that count things are \<open>nat\<close> or \<open>int\<close>; the
  relevance quotient and the temperature are exact rationals where the program uses
  IEEE doubles. The quotient of two counts is rounded monotonically and 0 and 1 are
  doubles, so the order and the bounds shown for the exact quotient hold for the double.
\<close>

definition toLowerChar :: "char \<Rightarrow> char" where
  "toLowerChar c =
     (let n = (of_char c :: nat)
      in if (65 \<le> n \<and> n \<le> 90) \<or> (192 \<le> n \<and> n \<le> 222 \<and> n \<noteq> 215)
         then char_of (n + 32) else c)"

definition toLowerCase :: "string \<Rightarrow> string" where
  "toLowerCase s = map toLowerChar s"

text \<open>\<open>s.split(sep)\<close> for a one-character separator: never empty, \<open>''''.split(sep) = ['''']\<close>.\<close>

fun js_split :: "char \<Rightarrow> string \<Rightarrow> string list" where
  "js_split sep [] = [[]]"
| "js_split sep (c # cs) =
     (if c = sep then [] # js_split sep cs
      else (case js_split sep cs of [] \<Rightarrow> [[c]] | w # ws \<Rightarrow> (c # w) # ws))"

text \<open>\<open>s.includes(t)\<close>: \<open>t\<close> occurs in \<open>s\<close> as a contiguous substring.\<close>

fun js_includes :: "string \<Rightarrow> string \<Rightarrow> bool" where
  "js_includes [] t = (t = [])"
| "js_includes (c # cs) t = (prefix t (c # cs) \<or> js_includes cs t)"

text \<open>\<open>xs.join(sep)\<close>.\<close>

fun js_join :: "string \<Rightarrow> string list \<Rightarrow> string" where
  "js_join sep [] = []"
| "js_join sep [x] = x"
| "js_join sep (x # y # ys) = x @ sep @ js_join sep (y # ys)"

text \<open>Truthiness of an optional string: \<open>undefined\<close> and \<open>''''\<close> are falsy.\<close>

definition truthy_str :: "string option \<Rightarrow> bool" where
  "truthy_str v = (case v of None \<Rightarrow> False | Some s \<Rightarrow> s \<noteq> [])"

text \<open>\<open>xs.slice(0, e)\<close> for an integral \<open>e\<close>: a negative end counts from the back.\<close>

definition slice0 :: "'a list \<Rightarrow> int \<Rightarrow> 'a list" where
  "slice0 xs e = (if e < 0 then take (length xs - nat (- e)) xs else take (nat e) xs)"

text \<open>\<open>xs.slice(-n)\<close> for a positive \<open>n\<close>: the last \<open>n\<close> elements.\<close>

definition slice_last :: "nat \<Rightarrow> 'a list \<Rightarrow> 'a list" where
  "slice_last n xs = drop (length xs - n) xs"


section \<open>KnowledgeBase: the local index\<close>

text \<open>
  A stored document (\<open>KnowledgeBase.addDocument\<close>, \<open>loadExistingDocuments\<close>). The fields
  \<open>text\<close> and \<open>content\<close> are absent on image documents and on documents loaded from disk
  at start-up. \<open>this.documents\<close> is a \<open>Map\<close>: an association list in insertion order.
\<close>

record document =
  doc_id :: string
  doc_filename :: string
  doc_path :: string
  doc_type :: string
  doc_text :: "string option"
  doc_content :: "string option"

text \<open>A search hit: \<open>{...doc, score, relevance}\<close>.\<close>

record search_result = document +
  score :: nat
  relevance :: rat

definition with_score :: "document \<Rightarrow> nat \<Rightarrow> rat \<Rightarrow> search_result" where
  "with_score doc s r =
     \<lparr>doc_id = doc_id doc, doc_filename = doc_filename doc, doc_path = doc_path doc,
      doc_type = doc_type doc, doc_text = doc_text doc, doc_content = doc_content doc,
      score = s, relevance = r\<rparr>"

text \<open>\<open>(doc.text || doc.content || '''').toLowerCase()\<close>\<close>

definition searchableText :: "document \<Rightarrow> string" where
  "searchableText doc =
     toLowerCase
       (if truthy_str (doc_text doc) then the (doc_text doc)
        else if truthy_str (doc_content doc) then the (doc_content doc)
        else [])"

text \<open>The inner loop: \<open>score += 1\<close> for every term the text includes.\<close>

definition term_score :: "string \<Rightarrow> string list \<Rightarrow> nat" where
  "term_score txt searchTerms =
     foldl (\<lambda>sc t. if js_includes txt t then sc + 1 else sc) 0 searchTerms"

text \<open>The outer loop over \<open>this.documents\<close>: documents that score push a result.\<close>

fun collect_results :: "string list \<Rightarrow> (string \<times> document) list \<Rightarrow> search_result list" where
  "collect_results searchTerms [] = []"
| "collect_results searchTerms ((k, doc) # rest) =
     (let sc = term_score (searchableText doc) searchTerms
      in if sc > 0
         then with_score doc sc (min (of_nat sc / of_nat (length searchTerms)) 1)
              # collect_results searchTerms rest
         else collect_results searchTerms rest)"

text \<open>
  \<open>KnowledgeBase.searchDocuments(query, options)\<close>; the argument \<open>limit\<close> is
  \<open>options.limit\<close>, \<open>None\<close> when absent. \<open>Array.prototype.sort\<close> is stable, as
  \<open>sort_key\<close> is; the comparator \<open>b.score - a.score\<close> orders by descending score.
\<close>

definition searchDocuments ::
  "(string \<times> document) list \<Rightarrow> string \<Rightarrow> int option \<Rightarrow> search_result list" where
  "searchDocuments documents query limit =
     (let searchTerms = js_split CHR '' '' (toLowerCase query);
          results = collect_results searchTerms documents;
          sorted_results = sort_key (\<lambda>r. - int (score r)) results
      in case limit of
           None \<Rightarrow> sorted_results
         | Some k \<Rightarrow> if k \<noteq> 0 then slice0 sorted_results k else sorted_results)"

section \<open>Messages, options and configuration\<close>

text \<open>
  A message part is \<open>{type: 'text', text}\<close>, \<open>{type: 'image_url', image_url: {url}}\<close> or
  an object of another type. A message content is a string, an array of parts, or any
  other (truthy, non-string, non-array) value.
\<close>

datatype item = TextItem string | ImageUrlItem string | OtherItem

datatype content = Str string | Parts "item list" | OtherContent

record message =
  role :: string
  content :: content

text \<open>A thrown \<open>Error\<close> and its \<open>message\<close>.\<close>

datatype js_error = Error (message: string)

text \<open>The \<open>options\<close> argument of the agent; \<open>None\<close> is an absent property.\<close>

record options =
  opt_provider :: "string option"
  opt_model :: "string option"
  opt_maxTokens :: "int option"
  opt_temperature :: "rat option"
  opt_sessionId :: "string option"

text \<open>\<open>config.llm\<close>\<close>

record llm_config =
  defaultProvider :: string
  defaultModel :: string
  cfg_maxTokens :: int
  cfg_temperature :: rat

text \<open>The options object handed to the adapter.\<close>

record call_options =
  model :: string
  maxTokens :: int
  temperature :: rat

text \<open>What an adapter's \<open>generateResponse\<close> resolves to.\<close>

record response =
  res_content :: string
  res_usage :: "nat \<times> nat \<times> nat"
  res_model :: string
  res_provider :: string

text \<open>\<open>a || b\<close> on strings and on numbers: \<open>undefined\<close>, the empty string and \<open>0\<close> are falsy.\<close>

definition or_str :: "string option \<Rightarrow> string \<Rightarrow> string" where
  "or_str a b = (case a of None \<Rightarrow> b | Some s \<Rightarrow> if s \<noteq> [] then s else b)"

definition or_int :: "int option \<Rightarrow> int \<Rightarrow> int" where
  "or_int a b = (case a of None \<Rightarrow> b | Some n \<Rightarrow> if n \<noteq> 0 then n else b)"

definition or_rat :: "rat option \<Rightarrow> rat \<Rightarrow> rat" where
  "or_rat a b = (case a of None \<Rightarrow> b | Some x \<Rightarrow> if x \<noteq> 0 then x else b)"


section \<open>ProviderFactory\<close>

datatype provider =
  OpenAIProvider | GoogleProvider | AnthropicProvider | MistralProvider | FireworksProvider

text \<open>
  \<open>ProviderFactory.createProvider(providerName, config)\<close>: the \<open>switch\<close> on
  \<open>providerName.toLowerCase()\<close>. The adapters' constructors store the configuration and
  build an SDK client object; they are taken to succeed and make no request.
\<close>

definition createProvider :: "string \<Rightarrow> js_error + provider" where
  "createProvider providerName =
     (let n = toLowerCase providerName in
      if n = ''openai'' then Inr OpenAIProvider
      else if n = ''google'' \<or> n = ''gemini'' then Inr GoogleProvider
      else if n = ''anthropic'' \<or> n = ''claude'' then Inr AnthropicProvider
      else if n = ''mistral'' then Inr MistralProvider
      else if n = ''fireworks'' then Inr FireworksProvider
      else Inl (Error (''Unsupported provider: '' @ providerName)))"


section \<open>Agent\<close>

text \<open>
  The agent's mutable fields. The knowledge base is reached through
  \<open>this.knowledgeBase.searchDocuments\<close>, the vendor through the adapter's
  \<open>generateResponse\<close> or \<open>generateStreamResponse\<close>: both are parameters of the
  operations below, and \<open>Inl\<close> is a thrown error.
\<close>

record agent =
  systemPrompt :: string
  llm :: llm_config
  conversationHistory :: "message list"
  sessionHistories :: "string \<rightharpoonup> message list"

type_synonym kb_search = "string \<Rightarrow> int option \<Rightarrow> js_error + search_result list"

type_synonym vendor = "provider \<Rightarrow> message list \<Rightarrow> call_options \<Rightarrow> js_error + response"

type_synonym 's vendor_stream = "provider \<Rightarrow> message list \<Rightarrow> call_options \<Rightarrow> js_error + 's"

text \<open>The local index behind \<open>searchKnowledge\<close>.\<close>

definition file_kb :: "(string \<times> document) list \<Rightarrow> kb_search" where
  "file_kb documents query limit = Inr (searchDocuments documents query limit)"

text \<open>
  The text of the user message that is searched for:
  \<open>userMessage.filter(item => item.type === 'text').map(item => item.text).join(' ')\<close>
  for an array, the message itself for a string, the empty string otherwise.
\<close>

fun is_text_item :: "item \<Rightarrow> bool" where
  "is_text_item (TextItem t) = True"
| "is_text_item _ = False"

fun item_text :: "item \<Rightarrow> string" where
  "item_text (TextItem t) = t"
| "item_text _ = []"

definition searchQuery_of :: "content \<Rightarrow> string" where
  "searchQuery_of userMessage =
     (case userMessage of
        Parts items \<Rightarrow> js_join '' '' (map item_text (filter is_text_item items))
      | Str s \<Rightarrow> s
      | OtherContent \<Rightarrow> [])"

text \<open>
  The context built from the search hits; \<open>doc.text?.substring(0, 500)\<close> of an absent
  text interpolates as \<open>undefined\<close>.
\<close>

definition context_line :: "search_result \<Rightarrow> string" where
  "context_line doc =
     (if doc_type doc = ''image''
      then ''[Image: '' @ doc_filename doc @ '']'' @ [CHR 0x0A]
      else ''['' @ doc_filename doc @ '']: ''
           @ (case doc_text doc of None \<Rightarrow> ''undefined'' | Some t \<Rightarrow> take 500 t)
           @ ''...'' @ [CHR 0x0A])"

definition build_context :: "search_result list \<Rightarrow> string" where
  "build_context relevantDocs =
     (if length relevantDocs > 0
      then foldl (\<lambda>ctx doc. ctx @ context_line doc)
             ([CHR 0x0A, CHR 0x0A] @ ''Relevant knowledge:'' @ [CHR 0x0A]) relevantDocs
      else [])"

text \<open>\<open>sessionId ? (this.sessionHistories.get(sessionId) || []) : this.conversationHistory\<close>\<close>

definition historyForSession :: "agent \<Rightarrow> string option \<Rightarrow> message list" where
  "historyForSession st sessionId =
     (if truthy_str sessionId
      then (case sessionHistories st (the sessionId) of None \<Rightarrow> [] | Some h \<Rightarrow> h)
      else conversationHistory st)"

definition build_messages ::
  "agent \<Rightarrow> search_result list \<Rightarrow> content \<Rightarrow> options \<Rightarrow> message list" where
  "build_messages st relevantDocs userMessage opts =
     \<lparr>role = ''system'', content = Str (systemPrompt st @ build_context relevantDocs)\<rparr>
     # historyForSession st (opt_sessionId opts)
     @ [\<lparr>role = ''user'', content = userMessage\<rparr>]"

definition build_call_options :: "agent \<Rightarrow> options \<Rightarrow> call_options" where
  "build_call_options st opts =
     \<lparr>model = or_str (opt_model opts) (defaultModel (llm st)),
      maxTokens = or_int (opt_maxTokens opts) (cfg_maxTokens (llm st)),
      temperature = or_rat (opt_temperature opts) (cfg_temperature (llm st))\<rparr>"

text \<open>\<open>relevantDocs.map(doc => ({id, filename, type, relevance}))\<close>\<close>

definition summaries :: "search_result list \<Rightarrow> (string \<times> string \<times> string \<times> rat) list" where
  "summaries relevantDocs =
     map (\<lambda>doc. (doc_id doc, doc_filename doc, doc_type doc, relevance doc)) relevantDocs"

text \<open>The \<open>catch\<close> blocks: \<open>throw new Error(`Agent error: ${error.message}`)\<close>.\<close>

definition agent_error :: "js_error \<Rightarrow> js_error" where
  "agent_error e = Error (''Agent error: '' @ message e)"

definition agent_stream_error :: "js_error \<Rightarrow> js_error" where
  "agent_stream_error e = Error (''Agent streaming error: '' @ message e)"

text \<open>
  \<open>Agent.generateResponse(userMessage, options)\<close>: the result (or the error thrown) and
  the agent afterwards.
\<close>

definition generateResponse ::
  "kb_search \<Rightarrow> vendor \<Rightarrow> agent \<Rightarrow> content \<Rightarrow> options
   \<Rightarrow> (js_error + response \<times> (string \<times> string \<times> string \<times> rat) list) \<times> agent" where
  "generateResponse search vendor st userMessage opts =
     (case search (searchQuery_of userMessage) (Some 5) of
        Inl e \<Rightarrow> (Inl (agent_error e), st)
      | Inr relevantDocs \<Rightarrow>
          (let sessionId = opt_sessionId opts;
               history = historyForSession st sessionId;
               messages = build_messages st relevantDocs userMessage opts;
               providerName = or_str (opt_provider opts) (defaultProvider (llm st))
           in case createProvider providerName of
                Inl e \<Rightarrow> (Inl (agent_error e), st)
              | Inr provider \<Rightarrow>
                  (case vendor provider messages (build_call_options st opts) of
                     Inl e \<Rightarrow> (Inl (agent_error e), st)
                   | Inr response \<Rightarrow>
                       (let updatedHistory =
                              history
                              @ [\<lparr>role = ''user'', content = userMessage\<rparr>,
                                 \<lparr>role = ''assistant'', content = Str (res_content response)\<rparr>];
                            trimmed = (if length updatedHistory > 20
                                       then slice_last 20 updatedHistory else updatedHistory);
                            st' = (if truthy_str sessionId
                                   then st\<lparr>sessionHistories :=
                                             (sessionHistories st)(the sessionId \<mapsto> trimmed)\<rparr>
                                   else st\<lparr>conversationHistory := trimmed\<rparr>)
                        in (Inr (response, summaries relevantDocs), st')))))"

text \<open>\<open>Agent.generateStreamResponse(userMessage, options)\<close>: no field is assigned.\<close>

definition generateStreamResponse ::
  "kb_search \<Rightarrow> 's vendor_stream \<Rightarrow> agent \<Rightarrow> content \<Rightarrow> options
   \<Rightarrow> (js_error + 's \<times> (string \<times> string \<times> string \<times> rat) list) \<times> agent" where
  "generateStreamResponse search vendor st userMessage opts =
     (case search (searchQuery_of userMessage) (Some 5) of
        Inl e \<Rightarrow> (Inl (agent_stream_error e), st)
      | Inr relevantDocs \<Rightarrow>
          (let messages = build_messages st relevantDocs userMessage opts;
               providerName = or_str (opt_provider opts) (defaultProvider (llm st))
           in case createProvider providerName of
                Inl e \<Rightarrow> (Inl (agent_stream_error e), st)
              | Inr provider \<Rightarrow>
                  (case vendor provider messages (build_call_options st opts) of
                     Inl e \<Rightarrow> (Inl (agent_stream_error e), st)
                   | Inr stream \<Rightarrow> (Inr (stream, summaries relevantDocs), st))))"

text \<open>\<open>Agent.getHistoryForSession(sessionId)\<close>\<close>

definition getHistoryForSession :: "agent \<Rightarrow> string option \<Rightarrow> message list" where
  "getHistoryForSession st sessionId =
     (if \<not> truthy_str sessionId then conversationHistory st
      else (case sessionHistories st (the sessionId) of None \<Rightarrow> [] | Some h \<Rightarrow> h))"

section \<open>Provider adapters: message translation\<close>

text \<open>\<open>xs[i]\<close>: \<open>undefined\<close> out of range.\<close>

definition js_index :: "'a list \<Rightarrow> nat \<Rightarrow> 'a option" where
  "js_index xs i = (if i < length xs then Some (xs ! i) else None)"

text \<open>\<open>item.image_url.url.split(',')[1]\<close>\<close>

definition image_payload :: "string \<Rightarrow> string option" where
  "image_payload url = js_index (js_split CHR '','' url) 1"

subsection \<open>AnthropicProvider.formatMessages\<close>

datatype anthropic_block =
  AText string
  | AImage (source_type: string) (media_type: string) (data: "string option")
  | ARaw item

datatype anthropic_content = APlain content | ABlocks "anthropic_block list"

record anthropic_message =
  a_role :: string
  a_content :: anthropic_content

fun anthropic_item :: "item \<Rightarrow> anthropic_block" where
  "anthropic_item (TextItem t) = AText t"
| "anthropic_item (ImageUrlItem url) = AImage ''base64'' ''image/jpeg'' (image_payload url)"
| "anthropic_item OtherItem = ARaw OtherItem"

definition anthropic_message_of :: "message \<Rightarrow> anthropic_message" where
  "anthropic_message_of msg =
     (if role msg = ''user''
      then (case content msg of
              Parts items \<Rightarrow> \<lparr>a_role = ''user'', a_content = ABlocks (map anthropic_item items)\<rparr>
            | c \<Rightarrow> \<lparr>a_role = ''user'', a_content = APlain c\<rparr>)
      else if role msg = ''assistant''
      then \<lparr>a_role = ''assistant'', a_content = APlain (content msg)\<rparr>
      else \<lparr>a_role = role msg, a_content = APlain (content msg)\<rparr>)"

text \<open>The result \<open>{system, messages}\<close>; \<open>systemMessage?.content || ''\<close>.\<close>

definition anthropic_formatMessages :: "message list \<Rightarrow> content \<times> anthropic_message list" where
  "anthropic_formatMessages messages =
     (let systemMessage = find (\<lambda>msg. role msg = ''system'') messages;
          conversationMessages = filter (\<lambda>msg. role msg \<noteq> ''system'') messages
      in ((case systemMessage of None \<Rightarrow> Str [] | Some m \<Rightarrow> content m),
          map anthropic_message_of conversationMessages))"

subsection \<open>GoogleProvider.formatMessages\<close>

text \<open>A part is \<open>{text}\<close> or \<open>{inline_data: {mime_type, data}}\<close>.\<close>

record google_part =
  p_text :: "content option"
  p_inline_data :: "(string \<times> string option) option"

record google_message =
  g_role :: string
  g_parts :: "google_part list"

text \<open>String conversion in a template literal.\<close>

definition js_string :: "content \<Rightarrow> string" where
  "js_string c =
     (case c of
        Str s \<Rightarrow> s
      | Parts items \<Rightarrow> js_join '','' (map (\<lambda>_. ''[object Object]'') items)
      | OtherContent \<Rightarrow> ''[object Object]'')"

definition js_string_opt :: "content option \<Rightarrow> string" where
  "js_string_opt c = (case c of None \<Rightarrow> ''undefined'' | Some v \<Rightarrow> js_string v)"

text \<open>The inner loop over the parts of a user message: other items push nothing.\<close>

fun google_parts :: "item list \<Rightarrow> google_part list" where
  "google_parts [] = []"
| "google_parts (TextItem t # items) =
     \<lparr>p_text = Some (Str t), p_inline_data = None\<rparr> # google_parts items"
| "google_parts (ImageUrlItem url # items) =
     \<lparr>p_text = None, p_inline_data = Some (''image/jpeg'', image_payload url)\<rparr>
     # google_parts items"
| "google_parts (OtherItem # items) = google_parts items"

text \<open>
  One iteration of the loop over the messages. Reading \<open>parts[0].text\<close> of a first
  message without parts throws a \<open>TypeError\<close>.
\<close>

definition google_step :: "google_message list \<Rightarrow> message \<Rightarrow> js_error + google_message list" where
  "google_step formattedMessages msg =
     (if role msg = ''system''
      then (case formattedMessages of
              [] \<Rightarrow>
                Inr [\<lparr>g_role = ''user'',
                      g_parts = [\<lparr>p_text = Some (Str (''System: '' @ js_string (content msg))),
                                  p_inline_data = None\<rparr>]\<rparr>]
            | m # ms \<Rightarrow>
                if g_role m \<noteq> ''user''
                then Inr (\<lparr>g_role = ''user'',
                           g_parts = [\<lparr>p_text = Some (Str (''System: '' @ js_string (content msg))),
                                       p_inline_data = None\<rparr>]\<rparr> # m # ms)
                else (case g_parts m of
                        [] \<Rightarrow> Inl (Error ''Cannot read properties of undefined (reading 'text')'')
                      | p # ps \<Rightarrow>
                          Inr (m\<lparr>g_parts :=
                                   p\<lparr>p_text :=
                                       Some (Str (''System: '' @ js_string (content msg)
                                                  @ [CHR 0x0A, CHR 0x0A] @ js_string_opt (p_text p)))\<rparr>
                                   # ps\<rparr> # ms)))
      else if role msg = ''user''
      then Inr (formattedMessages
                @ [\<lparr>g_role = ''user'',
                    g_parts = (case content msg of
                                 Parts items \<Rightarrow> google_parts items
                               | c \<Rightarrow> [\<lparr>p_text = Some c, p_inline_data = None\<rparr>])\<rparr>])
      else if role msg = ''assistant''
      then Inr (formattedMessages
                @ [\<lparr>g_role = ''model'',
                    g_parts = [\<lparr>p_text = Some (content msg), p_inline_data = None\<rparr>]\<rparr>])
      else Inr formattedMessages)"

fun google_loop :: "google_message list \<Rightarrow> message list \<Rightarrow> js_error + google_message list" where
  "google_loop formattedMessages [] = Inr formattedMessages"
| "google_loop formattedMessages (msg # messages) =
     (case google_step formattedMessages msg of
        Inl e \<Rightarrow> Inl e
      | Inr formattedMessages' \<Rightarrow> google_loop formattedMessages' messages)"

definition google_formatMessages :: "message list \<Rightarrow> js_error + google_message list" where
  "google_formatMessages messages = google_loop [] messages"


section \<open>Deleting a document\<close>

subsection \<open>KnowledgeBase.deleteDocument\<close>

text \<open>
  The local index and the files on disk. \<open>fs.unlink\<close> rejects when the path does not
  exist.
\<close>

record knowledge_base =
  documents :: "(string \<times> document) list"
  files :: "string set"

definition unlink :: "string set \<Rightarrow> string \<Rightarrow> js_error + string set" where
  "unlink fs p =
     (if p \<in> fs then Inr (fs - {p})
      else Inl (Error (''ENOENT: no such file or directory, unlink ''
                       @ [CHR 0x27] @ p @ [CHR 0x27])))"

definition deleteDocument :: "knowledge_base \<Rightarrow> string \<Rightarrow> (js_error + bool) \<times> knowledge_base" where
  "deleteDocument kb i =
     (case map_of (documents kb) i of
        None \<Rightarrow> (Inl (Error ''Document not found''), kb)
      | Some doc \<Rightarrow>
          (case unlink (files kb) (doc_path doc) of
             Inl e \<Rightarrow> (Inl (Error (''Failed to delete document: '' @ message e)), kb)
           | Inr fs' \<Rightarrow>
               (Inr True, \<lparr>documents = AList.delete i (documents kb), files = fs'\<rparr>)))"

subsection \<open>SupabaseKnowledgeBase.deleteDocument\<close>

text \<open>
  The remote table is the set of its row identifiers. The request
  \<open>client.from(table).delete().eq('id', id)\<close> removes the rows whose id matches and
  reports an error only when the request itself fails (\<open>failure\<close> is that error's
  message, \<open>None\<close> when the service answers): a filter that matches no row is not an
  error of the service.
\<close>

definition delete_eq_id :: "string option \<Rightarrow> string set \<Rightarrow> string \<Rightarrow> string option \<times> string set" where
  "delete_eq_id failure table i =
     (case failure of Some m \<Rightarrow> (Some m, table) | None \<Rightarrow> (None, table - {i}))"

definition supabase_deleteDocument ::
  "string option \<Rightarrow> string set \<Rightarrow> string \<Rightarrow> (js_error + bool) \<times> string set" where
  "supabase_deleteDocument failure table i =
     (case delete_eq_id failure table i of
        (Some m, table') \<Rightarrow> (Inl (Error (''Failed to delete document: '' @ m)), table')
      | (None, table') \<Rightarrow> (Inr True, table'))"

section \<open>Concrete data used by the scenarios\<close>

definition pricing_doc :: document where
  "pricing_doc =
     \<lparr>doc_id = ''d1'', doc_filename = ''pricing.md'', doc_path = ''knowledge_base/d1.md'',
      doc_type = ''md'', doc_text = Some ''Our premium plan costs $20/month'',
      doc_content = Some ''Our premium plan costs $20/month''\<rparr>"

definition plans_doc :: document where
  "plans_doc =
     \<lparr>doc_id = ''d2'', doc_filename = ''plans.txt'', doc_path = ''knowledge_base/d2.txt'',
      doc_type = ''txt'', doc_text = Some ''The basic plan is free'',
      doc_content = Some ''The basic plan is free''\<rparr>"

definition logo_doc :: document where
  "logo_doc =
     \<lparr>doc_id = ''d3'', doc_filename = ''logo.png'', doc_path = ''knowledge_base/d3.png'',
      doc_type = ''image'', doc_text = None, doc_content = None\<rparr>"

text \<open>
  A document as \<open>loadExistingDocuments\<close> stores it: the type from \<open>extractMetadata\<close>,
  no \<open>text\<close> and no \<open>content\<close>.
\<close>

definition startup_doc :: document where
  "startup_doc =
     \<lparr>doc_id = ''d9'', doc_filename = ''d9.md'', doc_path = ''knowledge_base/d9.md'',
      doc_type = ''text'', doc_text = None, doc_content = None\<rparr>"

definition example_index :: "(string \<times> document) list" where
  "example_index = [(''d1'', pricing_doc), (''d2'', plans_doc)]"

definition example_llm :: llm_config where
  "example_llm =
     \<lparr>defaultProvider = ''openai'', defaultModel = ''gpt-4'', cfg_maxTokens = 4000,
      cfg_temperature = 7 / 10\<rparr>"

definition helpful_agent :: agent where
  "helpful_agent =
     \<lparr>systemPrompt = ''You are helpful.'', llm = example_llm, conversationHistory = [],
      sessionHistories = Map.empty\<rparr>"

definition no_options :: options where
  "no_options =
     \<lparr>opt_provider = None, opt_model = None, opt_maxTokens = None, opt_temperature = None,
      opt_sessionId = None\<rparr>"

text \<open>A vendor that always answers, and one whose call always fails.\<close>

definition answering_vendor :: vendor where
  "answering_vendor p messages co =
     Inr \<lparr>res_content = ''It costs $20 per month.'', res_usage = (0, 0, 0),
          res_model = model co, res_provider = ''openai''\<rparr>"

definition failing_vendor :: vendor where
  "failing_vendor p messages co = Inl (Error ''OpenAI API error: 401'')"

text \<open>A vendor that answers only when it is called with temperature 0.\<close>

definition zero_temperature_vendor :: vendor where
  "zero_temperature_vendor p messages co =
     (if temperature co = 0
      then Inr \<lparr>res_content = ''deterministic'', res_usage = (0, 0, 0),
                res_model = model co, res_provider = ''openai''\<rparr>
      else Inl (Error ''temperature is not 0''))"

text \<open>A stream of chunks.\<close>

definition chunk_vendor :: "(string list) vendor_stream" where
  "chunk_vendor p messages co = Inr [''It '', ''costs '', ''$20.'']"

text \<open>A session history of 21 messages, numbered 1 to 21 by their length.\<close>

definition numbered_message :: "nat \<Rightarrow> message" where
  "numbered_message i =
     \<lparr>role = (if odd i then ''user'' else ''assistant''), content = Str (replicate i CHR ''m'')\<rparr>"

definition history21 :: "message list" where
  "history21 = map numbered_message [1..<22]"

definition agent21 :: agent where
  "agent21 =
     \<lparr>systemPrompt = ''You are helpful.'', llm = example_llm, conversationHistory = [],
      sessionHistories = [''s1'' \<mapsto> history21]\<rparr>"

definition s1_options :: options where
  "s1_options =
     \<lparr>opt_provider = None, opt_model = None, opt_maxTokens = None, opt_temperature = None,
      opt_sessionId = Some ''s1''\<rparr>"

text \<open>A user message with a PNG image part.\<close>

definition png_message :: message where
  "png_message =
     \<lparr>role = ''user'',
      content = Parts [TextItem ''What is this?'',
                       ImageUrlItem ''data:image/png;base64,iVBORw0KGgo='']\<rparr>"

text \<open>A vendor that answers with the system message it was sent.\<close>

definition echo_system_vendor :: vendor where
  "echo_system_vendor p messages co =
     (case messages of
        [] \<Rightarrow> Inl (Error ''no messages'')
      | m # ms \<Rightarrow>
          Inr \<lparr>res_content = js_string (content m), res_usage = (0, 0, 0),
               res_model = model co, res_provider = ''openai''\<rparr>)"

text \<open>A knowledge base whose search throws.\<close>

definition failing_search :: kb_search where
  "failing_search query limit = Inl (Error ''index unavailable'')"


text \<open>Options that name a vendor the factory does not know.\<close>

definition llama_options :: options where
  "llama_options =
     \<lparr>opt_provider = Some ''llama-farm'', opt_model = None, opt_maxTokens = None,
      opt_temperature = None, opt_sessionId = None\<rparr>"

text \<open>A local knowledge base whose two documents have their files on disk.\<close>

definition local_kb :: knowledge_base where
  "local_kb = \<lparr>documents = example_index,
      files = {''knowledge_base/d1.md'', ''knowledge_base/d2.txt''}\<rparr>"

section \<open>Properties of the knowledge search\<close>

lemma js_split_not_Nil: "js_split sep s \<noteq> []"
  by (induction s) (auto split: list.splits)

lemma js_includes_empty: "js_includes s []"
  by (induction s) auto

lemma foldl_count:
  "foldl (\<lambda>sc t. if P t then sc + 1 else sc) (a::nat) ts = a + length (filter P ts)"
  by (induction ts arbitrary: a) auto

lemma term_score_filter: "term_score txt ts = length (filter (js_includes txt) ts)"
  by (simp add: term_score_def foldl_count)

lemma term_score_le: "term_score txt ts \<le> length ts"
  by (simp add: term_score_filter)

lemma with_score_fields [simp]:
  "score (with_score d s r) = s" "relevance (with_score d s r) = r"
  by (simp_all add: with_score_def)

lemma collect_results_props:
  "r \<in> set (collect_results ts ds) \<Longrightarrow>
     0 < score r \<and> score r \<le> length ts \<and>
     relevance r = min (of_nat (score r) / of_nat (length ts)) 1"
  by (induction ts ds rule: collect_results.induct)
     (auto simp: Let_def term_score_le split: if_splits)

lemma collect_results_empty_term:
  "collect_results [[]] ds = map (\<lambda>(k, doc). with_score doc 1 1) ds"
  by (induction ds) (auto simp: term_score_def js_includes_empty)

lemma set_slice0: "set (slice0 xs e) \<subseteq> set xs"
  by (auto simp: slice0_def dest: in_set_takeD)

lemma prefix_slice0: "prefix (slice0 xs e) xs"
  by (simp add: slice0_def take_is_prefix)

lemma length_slice0: "0 < e \<Longrightarrow> int (length (slice0 xs e)) \<le> e"
  by (simp add: slice0_def)

lemma sort_all_ones:
  "sort_key (\<lambda>r. - int (score r)) (map (\<lambda>(k, doc). with_score doc 1 1) ds)
     = map (\<lambda>(k, doc). with_score doc 1 1) ds"
proof (rule sort_key_id_if_sorted)
  have "map (\<lambda>r. - int (score r)) (map (\<lambda>(k, doc). with_score doc 1 1) ds)
          = replicate (length ds) (- 1)"
    by (induction ds) auto
  then show "sorted (map (\<lambda>r. - int (score r)) (map (\<lambda>(k, doc). with_score doc 1 1) ds))"
    by (simp add: sorted_replicate)
qed

lemma relevance_mono:
  assumes "(0::nat) < n" "a \<le> b"
  shows "min (rat_of_nat a / rat_of_nat n) 1 \<le> min (rat_of_nat b / rat_of_nat n) 1"
proof -
  have "rat_of_nat a / rat_of_nat n \<le> rat_of_nat b / rat_of_nat n"
    using assms by (simp add: divide_right_mono)
  then show ?thesis by (simp add: min_le_iff_disj)
qed

lemma sorted_results:
  "sorted_wrt (\<lambda>a b. score b \<le> score a) (sort_key (\<lambda>r. - int (score r)) rs)"
proof -
  have "sorted (map (\<lambda>r. - int (score r)) (sort_key (\<lambda>r. - int (score r)) rs))"
    by (rule sorted_sort_key)
  then show ?thesis by (simp add: sorted_map)
qed

lemma stable_results:
  "filter (\<lambda>r. score r = s) (sort_key (\<lambda>r. - int (score r)) rs)
     = filter (\<lambda>r. score r = s) rs"
  using sort_key_stable [of "\<lambda>r. - int (score r)" "- int s" rs] by simp

text \<open>
  C1, as the code has it. The empty query splits into the single term \<open>''''\<close>, which
  every searchable text includes: the search raises nothing and returns every document
  of the index, in index order, each with score 1 and relevance 1, cut to the limit.
\<close>

theorem searchDocuments_empty_query:
  "searchDocuments index [] None = map (\<lambda>(k, doc). with_score doc 1 1) index
   \<and> (0 < k \<longrightarrow>
        searchDocuments index [] (Some k)
          = take (nat k) (map (\<lambda>(k, doc). with_score doc 1 1) index))"
  by (simp add: searchDocuments_def toLowerCase_def collect_results_empty_term sort_all_ones
        slice0_def del: One_nat_def)

theorem searchDocuments_empty_query_witness:
  "0 < (5::int) \<and>
   searchDocuments example_index [] (Some 5)
     = [with_score pricing_doc 1 1, with_score plans_doc 1 1]"
  using searchDocuments_empty_query [of example_index 5]
  by (simp add: example_index_def)

text \<open>
  C1 as stated fails: on an index of two documents the empty query, with limit 5,
  returns fragments.
\<close>

theorem empty_query_returns_documents:
  "searchDocuments example_index [] (Some 5) \<noteq> []"
  by code_simp

text \<open>
  C3, as the code has it. For a positive limit \<open>k\<close> the search returns at most \<open>k\<close>
  results, in non-increasing order of score and of relevance; results of equal score keep
  the order in which the documents were encountered; every relevance is
  \<open>min (score / termCount) 1\<close> and lies between 0 and 1. A limit of 0 is treated as
  no limit: the search returns what it returns without one.
\<close>

theorem searchDocuments_ranked:
  assumes "0 < k"
  shows "int (length (searchDocuments index query (Some k))) \<le> k
    \<and> sorted_wrt (\<lambda>a b. score b \<le> score a) (searchDocuments index query (Some k))
    \<and> sorted_wrt (\<lambda>a b. relevance b \<le> relevance a) (searchDocuments index query (Some k))
    \<and> (\<forall>s. prefix (filter (\<lambda>r. score r = s) (searchDocuments index query (Some k)))
                   (filter (\<lambda>r. score r = s)
                      (collect_results (js_split CHR '' '' (toLowerCase query)) index)))
    \<and> (\<forall>r \<in> set (searchDocuments index query (Some k)).
          0 \<le> relevance r \<and> relevance r \<le> 1 \<and>
          relevance r
            = min (of_nat (score r) / of_nat (length (js_split CHR '' '' (toLowerCase query)))) 1)
    \<and> searchDocuments index query (Some 0) = searchDocuments index query None"
proof -
  define ts where "ts = js_split CHR '' '' (toLowerCase query)"
  define rs where "rs = collect_results ts index"
  define srt where "srt = sort_key (\<lambda>r. - int (score r)) rs"
  have res: "searchDocuments index query (Some k) = slice0 srt k"
    using assms by (simp add: searchDocuments_def ts_def rs_def srt_def)
  have n_pos: "0 < length ts"
    using js_split_not_Nil [of "CHR '' ''" "toLowerCase query"] by (simp add: ts_def)
  have sub: "set (slice0 srt k) \<subseteq> set rs"
    using set_slice0 [of srt k] by (simp add: srt_def)
  have props: "\<And>r. r \<in> set (slice0 srt k) \<Longrightarrow>
      0 < score r \<and> score r \<le> length ts \<and>
      relevance r = min (of_nat (score r) / of_nat (length ts)) 1"
    using sub collect_results_props [of _ ts index] by (auto simp: rs_def)
  have c1: "int (length (slice0 srt k)) \<le> k"
    using assms by (rule length_slice0)
  have srt_sorted: "sorted_wrt (\<lambda>a b. score b \<le> score a) srt"
    unfolding srt_def by (rule sorted_results)
  have c2: "sorted_wrt (\<lambda>a b. score b \<le> score a) (slice0 srt k)"
    using srt_sorted by (simp add: slice0_def sorted_wrt_take)
  have c3: "sorted_wrt (\<lambda>a b. relevance b \<le> relevance a) (slice0 srt k)"
  proof (rule sorted_wrt_mono_rel [OF _ c2])
    fix a b
    assume a: "a \<in> set (slice0 srt k)" and b: "b \<in> set (slice0 srt k)"
      and le: "score b \<le> score a"
    show "relevance b \<le> relevance a"
      using props [OF a] props [OF b] relevance_mono [OF n_pos le] by simp
  qed
  have c4: "\<forall>s. prefix (filter (\<lambda>r. score r = s) (slice0 srt k)) (filter (\<lambda>r. score r = s) rs)"
  proof
    fix s
    have "prefix (filter (\<lambda>r. score r = s) (slice0 srt k)) (filter (\<lambda>r. score r = s) srt)"
      by (rule filter_mono_prefix) (rule prefix_slice0)
    then show "prefix (filter (\<lambda>r. score r = s) (slice0 srt k)) (filter (\<lambda>r. score r = s) rs)"
      by (simp add: srt_def stable_results)
  qed
  have c5: "\<forall>r \<in> set (slice0 srt k). 0 \<le> relevance r \<and> relevance r \<le> 1 \<and>
      relevance r = min (of_nat (score r) / of_nat (length ts)) 1"
  proof
    fix r assume r: "r \<in> set (slice0 srt k)"
    have eq: "relevance r = min (of_nat (score r) / of_nat (length ts)) 1"
      using props [OF r] by simp
    have "(0::rat) \<le> of_nat (score r) / of_nat (length ts)" by simp
    then show "0 \<le> relevance r \<and> relevance r \<le> 1 \<and>
      relevance r = min (of_nat (score r) / of_nat (length ts)) 1"
      using eq by simp
  qed
  have c6: "searchDocuments index query (Some 0) = searchDocuments index query None"
    by (simp add: searchDocuments_def)
  have "int (length (slice0 srt k)) \<le> k
    \<and> sorted_wrt (\<lambda>a b. score b \<le> score a) (slice0 srt k)
    \<and> sorted_wrt (\<lambda>a b. relevance b \<le> relevance a) (slice0 srt k)
    \<and> (\<forall>s. prefix (filter (\<lambda>r. score r = s) (slice0 srt k)) (filter (\<lambda>r. score r = s) rs))
    \<and> (\<forall>r \<in> set (slice0 srt k). 0 \<le> relevance r \<and> relevance r \<le> 1 \<and>
          relevance r = min (of_nat (score r) / of_nat (length ts)) 1)"
    using c1 c2 c3 c4 c5 by (intro conjI)
  then show ?thesis
    unfolding res [symmetric] ts_def rs_def using c6 by (intro conjI) blast+
qed

theorem searchDocuments_ranked_witness:
  "0 < (5::int)
   \<and> map doc_filename (searchDocuments example_index ''premium plan'' (Some 5))
       = [''pricing.md'', ''plans.txt'']
   \<and> int (length (searchDocuments example_index ''premium plan'' (Some 5))) \<le> 5
   \<and> sorted_wrt (\<lambda>a b. score b \<le> score a)
        (searchDocuments example_index ''premium plan'' (Some 5))
   \<and> sorted_wrt (\<lambda>a b. relevance b \<le> relevance a)
        (searchDocuments example_index ''premium plan'' (Some 5))
   \<and> map relevance (searchDocuments example_index ''premium plan'' (Some 5)) = [1, 1 / 2]
   \<and> searchDocuments example_index ''premium plan'' (Some 0)
       = searchDocuments example_index ''premium plan'' None"
proof -
  have pos: "0 < (5::int)" by simp
  have names: "map doc_filename (searchDocuments example_index ''premium plan'' (Some 5))
       = [''pricing.md'', ''plans.txt'']"
    by code_simp
  have rels: "map relevance (searchDocuments example_index ''premium plan'' (Some 5))
       = [1, 1 / 2]"
    by code_simp
  show ?thesis
    using pos names rels searchDocuments_ranked [OF pos, of example_index "''premium plan''"]
    by simp
qed

text \<open>
  C3 as stated fails at the limit 0: \<open>if (options.limit)\<close> takes 0 for an absent limit
  and the search returns both matching documents.
\<close>

theorem limit_zero_returns_all:
  "\<not> int (length (searchDocuments example_index ''plan'' (Some 0))) \<le> 0"
  by code_simp

section \<open>Properties of the agent\<close>

lemma build_context_concat:
  "build_context frags = (if frags = [] then [] else
      [CHR 0x0A, CHR 0x0A] @ ''Relevant knowledge:'' @ [CHR 0x0A] @ concat (map context_line frags))"
proof -
  have "\<And>a. foldl (\<lambda>ctx doc. ctx @ context_line doc) a frags = a @ concat (map context_line frags)"
    by (induction frags) auto
  then show ?thesis by (simp add: build_context_def)
qed

lemma generateResponse_success_history:
  assumes "fst (generateResponse search vendor st userMessage opts) = Inr (response, docs)"
  shows "getHistoryForSession (snd (generateResponse search vendor st userMessage opts))
            (opt_sessionId opts)
          = (let updated = getHistoryForSession st (opt_sessionId opts)
                   @ [\<lparr>role = ''user'', content = userMessage\<rparr>,
                      \<lparr>role = ''assistant'', content = Str (res_content response)\<rparr>]
             in if length updated > 20 then slice_last 20 updated else updated)"
  using assms
  by (auto simp: generateResponse_def getHistoryForSession_def historyForSession_def Let_def
           split: sum.splits option.splits)

lemma generateStreamResponse_state:
  "snd (generateStreamResponse search vendor st userMessage opts) = st"
  by (auto simp: generateStreamResponse_def Let_def split: sum.splits)

lemma agent21_call:
  "fst (generateResponse (file_kb example_index) answering_vendor agent21 (Str ''hello'') s1_options)
     = Inr (\<lparr>res_content = ''It costs $20 per month.'', res_usage = (0, 0, 0),
              res_model = ''gpt-4'', res_provider = ''openai''\<rparr>, [])"
  by code_simp

lemma agent21_history: "getHistoryForSession agent21 (Some ''s1'') = history21"
  by (simp add: getHistoryForSession_def agent21_def truthy_str_def)

lemma length_history21: "length history21 = 21"
  by (simp add: history21_def)

lemma helpful_call:
  "fst (generateResponse (file_kb example_index) answering_vendor helpful_agent (Str ''hello'')
         s1_options)
     = Inr (\<lparr>res_content = ''It costs $20 per month.'', res_usage = (0, 0, 0),
              res_model = ''gpt-4'', res_provider = ''openai''\<rparr>, [])"
  by code_simp

lemma helpful_stream:
  "fst (generateStreamResponse (file_kb example_index) chunk_vendor helpful_agent (Str ''hello'')
         s1_options)
     = Inr ([''It '', ''costs '', ''$20.''], [])"
  by code_simp

text \<open>
  C2, as the code has it. A successful \<open>generateResponse\<close> that takes the history of
  its session past 20 messages retains exactly the last 20 of the old history followed by
  the new user and assistant messages: the retained history is a suffix, the head is
  dropped. From a history of 21 messages the call makes 23 and keeps messages 4 to 23.
\<close>

theorem generateResponse_keeps_last_20:
  assumes "fst (generateResponse search vendor st userMessage opts) = Inr (response, docs)"
    and "20 < length (getHistoryForSession st (opt_sessionId opts)) + 2"
  shows "length (getHistoryForSession (snd (generateResponse search vendor st userMessage opts))
                   (opt_sessionId opts)) = 20
    \<and> getHistoryForSession (snd (generateResponse search vendor st userMessage opts))
          (opt_sessionId opts)
        = drop (length (getHistoryForSession st (opt_sessionId opts)) + 2 - 20)
            (getHistoryForSession st (opt_sessionId opts)
             @ [\<lparr>role = ''user'', content = userMessage\<rparr>,
                \<lparr>role = ''assistant'', content = Str (res_content response)\<rparr>])
    \<and> suffix (getHistoryForSession (snd (generateResponse search vendor st userMessage opts))
                 (opt_sessionId opts))
          (getHistoryForSession st (opt_sessionId opts)
             @ [\<lparr>role = ''user'', content = userMessage\<rparr>,
                \<lparr>role = ''assistant'', content = Str (res_content response)\<rparr>])
    \<and> (length (getHistoryForSession st (opt_sessionId opts)) = 21 \<longrightarrow>
          getHistoryForSession (snd (generateResponse search vendor st userMessage opts))
              (opt_sessionId opts)
            = drop 3 (getHistoryForSession st (opt_sessionId opts))
              @ [\<lparr>role = ''user'', content = userMessage\<rparr>,
                 \<lparr>role = ''assistant'', content = Str (res_content response)\<rparr>])"
proof -
  define old where "old = getHistoryForSession st (opt_sessionId opts)"
  define new where "new = getHistoryForSession
      (snd (generateResponse search vendor st userMessage opts)) (opt_sessionId opts)"
  define turn where "turn = [\<lparr>role = ''user'', content = userMessage\<rparr>,
      \<lparr>role = ''assistant'', content = Str (res_content response)\<rparr>]"
  have len: "length turn = 2" by (simp add: turn_def)
  have long: "20 < length (old @ turn)"
    using assms(2) len by (simp add: old_def)
  have eq: "new = drop (length old + 2 - 20) (old @ turn)"
    using generateResponse_success_history [OF assms(1)] long len
    by (simp add: new_def old_def turn_def slice_last_def Let_def)
  have l: "length new = 20"
    using eq long len by simp
  have s: "suffix new (old @ turn)"
    unfolding eq by (rule suffix_drop)
  have c: "length old = 21 \<longrightarrow> new = drop 3 old @ turn"
    using eq by simp
  show ?thesis
    using l eq s c unfolding new_def old_def turn_def by simp
qed

theorem generateResponse_keeps_last_20_witness:
  "getHistoryForSession
      (snd (generateResponse (file_kb example_index) answering_vendor agent21 (Str ''hello'')
              s1_options)) (Some ''s1'')
     = drop 3 history21
       @ [\<lparr>role = ''user'', content = Str ''hello''\<rparr>,
          \<lparr>role = ''assistant'', content = Str ''It costs $20 per month.''\<rparr>]
   \<and> length (getHistoryForSession
      (snd (generateResponse (file_kb example_index) answering_vendor agent21 (Str ''hello'')
              s1_options)) (Some ''s1'')) = 20"
proof -
  have sid: "opt_sessionId s1_options = Some ''s1''" by (simp add: s1_options_def)
  have long: "20 < length (getHistoryForSession agent21 (opt_sessionId s1_options)) + 2"
    by (simp add: sid agent21_history length_history21)
  show ?thesis
    using generateResponse_keeps_last_20 [OF agent21_call long]
    by (simp add: agent21_history length_history21 sid)
qed

text \<open>
  C2 as stated fails: from the history of 21 numbered messages, message 2 is not retained
  after one more call.
\<close>

theorem message_2_is_dropped:
  "numbered_message 2 \<notin> set (getHistoryForSession
      (snd (generateResponse (file_kb example_index) answering_vendor agent21 (Str ''hello'')
              s1_options)) (Some ''s1''))"
  by code_simp

text \<open>
  C7. \<open>generateStreamResponse\<close> leaves the agent as it was, whatever the message, the
  options, the knowledge base and the vendor do: the per-session histories and the default
  history are unchanged. A successful \<open>generateResponse\<close> is what stores the user and
  assistant turn.
\<close>

theorem generateStreamResponse_keeps_history:
  "snd (generateStreamResponse search vendor st userMessage opts) = st
   \<and> sessionHistories (snd (generateStreamResponse search vendor st userMessage opts))
       = sessionHistories st
   \<and> conversationHistory (snd (generateStreamResponse search vendor st userMessage opts))
       = conversationHistory st
   \<and> (fst (generateResponse search vendor' st userMessage opts) = Inr (response, docs) \<longrightarrow>
        getHistoryForSession (snd (generateResponse search vendor' st userMessage opts))
            (opt_sessionId opts)
          = (let updated = getHistoryForSession st (opt_sessionId opts)
                   @ [\<lparr>role = ''user'', content = userMessage\<rparr>,
                      \<lparr>role = ''assistant'', content = Str (res_content response)\<rparr>]
             in if length updated > 20 then slice_last 20 updated else updated))"
  using generateResponse_success_history [of search vendor' st userMessage opts response docs]
  by (simp add: generateStreamResponse_state)

theorem generateStreamResponse_keeps_history_witness:
  "fst (generateStreamResponse (file_kb example_index) chunk_vendor helpful_agent (Str ''hello'')
         s1_options)
     = Inr ([''It '', ''costs '', ''$20.''], [])
   \<and> snd (generateStreamResponse (file_kb example_index) chunk_vendor helpful_agent
            (Str ''hello'') s1_options) = helpful_agent
   \<and> getHistoryForSession
        (snd (generateStreamResponse (file_kb example_index) chunk_vendor helpful_agent
               (Str ''hello'') s1_options)) (Some ''s1'') = []
   \<and> getHistoryForSession
        (snd (generateResponse (file_kb example_index) answering_vendor helpful_agent
               (Str ''hello'') s1_options)) (Some ''s1'')
       = [\<lparr>role = ''user'', content = Str ''hello''\<rparr>,
          \<lparr>role = ''assistant'', content = Str ''It costs $20 per month.''\<rparr>]"
proof -
  have sid: "opt_sessionId s1_options = Some ''s1''" by (simp add: s1_options_def)
  have empty: "getHistoryForSession helpful_agent (Some ''s1'') = []"
    by (simp add: getHistoryForSession_def helpful_agent_def truthy_str_def)
  show ?thesis
    using generateStreamResponse_keeps_history
            [of "file_kb example_index" chunk_vendor helpful_agent "Str ''hello''" s1_options
                answering_vendor _ "[]"]
          helpful_call helpful_stream
    by (simp add: sid empty)
qed

text \<open>
  C10. When \<open>generateResponse\<close> throws, the error is \<open>Agent error: \<close> followed by
  the message of the original error and the agent is unchanged; a failing knowledge search, a
  failing provider resolution and a failing vendor call each end so.
\<close>

theorem generateResponse_error_leaves_state:
  "(fst (generateResponse search vendor st userMessage opts) = Inl e \<longrightarrow>
      snd (generateResponse search vendor st userMessage opts) = st
      \<and> (\<exists>m. e = Error (''Agent error: '' @ m)))
   \<and> (search (searchQuery_of userMessage) (Some 5) = Inl x \<longrightarrow>
        generateResponse search vendor st userMessage opts
          = (Inl (Error (''Agent error: '' @ message x)), st))
   \<and> (search (searchQuery_of userMessage) (Some 5) = Inr docs
        \<and> createProvider (or_str (opt_provider opts) (defaultProvider (llm st))) = Inl x \<longrightarrow>
        generateResponse search vendor st userMessage opts
          = (Inl (Error (''Agent error: '' @ message x)), st))
   \<and> (search (searchQuery_of userMessage) (Some 5) = Inr docs
        \<and> createProvider (or_str (opt_provider opts) (defaultProvider (llm st))) = Inr p
        \<and> vendor p (build_messages st docs userMessage opts) (build_call_options st opts) = Inl x \<longrightarrow>
        generateResponse search vendor st userMessage opts
          = (Inl (Error (''Agent error: '' @ message x)), st))"
  by (auto simp: generateResponse_def agent_error_def Let_def split: sum.splits)

theorem generateResponse_error_leaves_state_witness:
  "generateResponse failing_search answering_vendor agent21 (Str ''hello'') s1_options
     = (Inl (Error ''Agent error: index unavailable''), agent21)
   \<and> generateResponse (file_kb example_index) failing_vendor agent21 (Str ''hello'') s1_options
     = (Inl (Error ''Agent error: OpenAI API error: 401''), agent21)"
proof -
  have a: "failing_search (searchQuery_of (Str ''hello'')) (Some 5) = Inl (Error ''index unavailable'')"
    by (simp add: failing_search_def)
  have b: "file_kb example_index (searchQuery_of (Str ''hello'')) (Some 5) = Inr (searchDocuments example_index ''hello'' (Some 5))"
    by (simp add: file_kb_def searchQuery_of_def)
  have c: "createProvider (or_str (opt_provider s1_options) (defaultProvider (llm agent21))) = Inr OpenAIProvider"
    by code_simp
  have d: "failing_vendor OpenAIProvider (build_messages agent21 (searchDocuments example_index ''hello'' (Some 5)) (Str ''hello'') s1_options) (build_call_options agent21 s1_options) = Inl (Error ''OpenAI API error: 401'')"
    by (simp add: failing_vendor_def)
  show ?thesis
    using generateResponse_error_leaves_state [of failing_search answering_vendor agent21 "Str ''hello''" s1_options _ "Error ''index unavailable''"]
          generateResponse_error_leaves_state [of "file_kb example_index" failing_vendor agent21 "Str ''hello''" s1_options _ "Error ''OpenAI API error: 401''" "searchDocuments example_index ''hello'' (Some 5)" OpenAIProvider]
          a b c d
    by simp
qed

lemma context_line_format:
  "context_line =
     (\<lambda>doc. if doc_type doc = ''image''
            then ''[Image: '' @ doc_filename doc @ '']\<newline>''
            else ''['' @ doc_filename doc @ '']: ''
                 @ (case doc_text doc of None \<Rightarrow> ''undefined'' | Some t \<Rightarrow> take 500 t)
                 @ ''...\<newline>'')"
  by (rule ext) (simp add: context_line_def)

lemma pricing_scenario:
  "fst (generateResponse (file_kb [(''d1'', pricing_doc)]) echo_system_vendor helpful_agent
          (Str ''what is the premium plan price'') no_options)
     = Inr (\<lparr>res_content = ''You are helpful.\<newline>\<newline>Relevant knowledge:\<newline>[pricing.md]: Our premium plan costs $20/month...\<newline>'',
              res_usage = (0, 0, 0), res_model = ''gpt-4'', res_provider = ''openai''\<rparr>,
            [(''d1'', ''pricing.md'', ''md'', 1 / 3)])"
  by code_simp

lemma pricing_substring:
  "js_includes ''You are helpful.\<newline>\<newline>Relevant knowledge:\<newline>[pricing.md]: Our premium plan costs $20/month...\<newline>''
      ''[pricing.md]: Our premium plan costs $20/month''"
  by code_simp

lemma pricing_search:
  "map score (searchDocuments [(''d1'', pricing_doc)] ''what is the premium plan price'' (Some 5)) = [2]"
  by code_simp

lemma pricing_hits:
  "file_kb [(''d1'', pricing_doc)] (searchQuery_of (Str ''what is the premium plan price'')) (Some 5)
     = Inr [with_score pricing_doc 2 (1 / 3)]"
  by code_simp

lemma default_provider_resolves:
  "createProvider (or_str (opt_provider no_options) (defaultProvider (llm helpful_agent)))
     = Inr OpenAIProvider"
  by code_simp

lemma image_fragment_line:
  "context_line (with_score logo_doc 1 1) = ''[Image: logo.png]\<newline>''"
  by code_simp

lemma build_call_options_truthy:
  "m \<noteq> [] \<Longrightarrow> n \<noteq> 0 \<Longrightarrow> t \<noteq> 0 \<Longrightarrow>
   build_call_options st (opts\<lparr>opt_model := Some m, opt_maxTokens := Some n, opt_temperature := Some t\<rparr>)
     = \<lparr>model = m, maxTokens = n, temperature = t\<rparr>"
  by (simp add: build_call_options_def or_str_def or_int_def or_rat_def)

lemma build_call_options_absent:
  "build_call_options st (opts\<lparr>opt_model := None, opt_maxTokens := None, opt_temperature := None\<rparr>)
     = \<lparr>model = defaultModel (llm st), maxTokens = cfg_maxTokens (llm st),
        temperature = cfg_temperature (llm st)\<rparr>"
  by (simp add: build_call_options_def or_str_def or_int_def or_rat_def)

text \<open>
  The system message in general. When the search returns the fragments \<open>frags\<close> and the
  provider resolves, the vendor is called with a first message of role \<open>system\<close> whose
  content is the system prompt followed, when there are fragments, by the heading
  \<open>Relevant knowledge:\<close> and one line per fragment: \<open>[Image: filename]\<close> for an
  image; \<open>[filename]: \<close>, the first 500 characters of the text and \<open>...\<close> for
  another fragment that has a text; and \<open>[filename]: undefined...\<close> for another
  fragment without one. Without fragments the content is the system prompt alone. In the
  scenario of the document \<open>pricing.md\<close> the search scores 2, the relevance is 1/3 and
  the system message sent to the vendor contains
  \<open>[pricing.md]: Our premium plan costs $20/month\<close>.
\<close>

lemma system_message_augmented:
  "(search (searchQuery_of userMessage) (Some 5) = Inr frags
      \<and> createProvider (or_str (opt_provider opts) (defaultProvider (llm st))) = Inr p \<longrightarrow>
    fst (generateResponse search vendor st userMessage opts)
      = (case vendor p
               (\<lparr>role = ''system'',
                 content = Str (systemPrompt st
                   @ (if frags = [] then []
                      else ''\<newline>\<newline>Relevant knowledge:\<newline>''
                        @ concat (map (\<lambda>doc.
                            if doc_type doc = ''image''
                            then ''[Image: '' @ doc_filename doc @ '']\<newline>''
                            else ''['' @ doc_filename doc @ '']: ''
                                 @ (case doc_text doc of
                                      None \<Rightarrow> ''undefined'' | Some t \<Rightarrow> take 500 t)
                                 @ ''...\<newline>'') frags)))\<rparr>
                # historyForSession st (opt_sessionId opts)
                @ [\<lparr>role = ''user'', content = userMessage\<rparr>])
               (build_call_options st opts) of
           Inl e \<Rightarrow> Inl (agent_error e)
         | Inr response \<Rightarrow> Inr (response, summaries frags)))
   \<and> (search (searchQuery_of userMessage) (Some 5) = Inr []
      \<and> createProvider (or_str (opt_provider opts) (defaultProvider (llm st))) = Inr p \<longrightarrow>
    fst (generateResponse search vendor st userMessage opts)
      = (case vendor p
               (\<lparr>role = ''system'', content = Str (systemPrompt st)\<rparr>
                # historyForSession st (opt_sessionId opts)
                @ [\<lparr>role = ''user'', content = userMessage\<rparr>])
               (build_call_options st opts) of
           Inl e \<Rightarrow> Inl (agent_error e)
         | Inr response \<Rightarrow> Inr (response, summaries [])))
   \<and> map score (searchDocuments [(''d1'', pricing_doc)] ''what is the premium plan price'' (Some 5))
       = [2]
   \<and> fst (generateResponse (file_kb [(''d1'', pricing_doc)]) echo_system_vendor helpful_agent
          (Str ''what is the premium plan price'') no_options)
       = Inr (\<lparr>res_content = ''You are helpful.\<newline>\<newline>Relevant knowledge:\<newline>[pricing.md]: Our premium plan costs $20/month...\<newline>'',
                res_usage = (0, 0, 0), res_model = ''gpt-4'', res_provider = ''openai''\<rparr>,
              [(''d1'', ''pricing.md'', ''md'', 1 / 3)])
   \<and> js_includes ''You are helpful.\<newline>\<newline>Relevant knowledge:\<newline>[pricing.md]: Our premium plan costs $20/month...\<newline>''
        ''[pricing.md]: Our premium plan costs $20/month''"
proof -
  have general: "\<And>frags. search (searchQuery_of userMessage) (Some 5) = Inr frags
      \<and> createProvider (or_str (opt_provider opts) (defaultProvider (llm st))) = Inr p \<longrightarrow>
    fst (generateResponse search vendor st userMessage opts)
      = (case vendor p
               (\<lparr>role = ''system'', content = Str (systemPrompt st @ build_context frags)\<rparr>
                # historyForSession st (opt_sessionId opts)
                @ [\<lparr>role = ''user'', content = userMessage\<rparr>])
               (build_call_options st opts) of
           Inl e \<Rightarrow> Inl (agent_error e)
         | Inr response \<Rightarrow> Inr (response, summaries frags))"
    by (auto simp: generateResponse_def build_messages_def Let_def split: sum.splits)
  have fmt: "\<And>frags. build_context frags = (if frags = [] then []
                      else ''\<newline>\<newline>Relevant knowledge:\<newline>''
                        @ concat (map (\<lambda>doc.
                            if doc_type doc = ''image''
                            then ''[Image: '' @ doc_filename doc @ '']\<newline>''
                            else ''['' @ doc_filename doc @ '']: ''
                                 @ (case doc_text doc of
                                      None \<Rightarrow> ''undefined'' | Some t \<Rightarrow> take 500 t)
                                 @ ''...\<newline>'') frags))"
    unfolding build_context_concat context_line_format by simp
  have a: "search (searchQuery_of userMessage) (Some 5) = Inr frags
      \<and> createProvider (or_str (opt_provider opts) (defaultProvider (llm st))) = Inr p \<longrightarrow>
    fst (generateResponse search vendor st userMessage opts)
      = (case vendor p
               (\<lparr>role = ''system'',
                 content = Str (systemPrompt st
                   @ (if frags = [] then []
                      else ''\<newline>\<newline>Relevant knowledge:\<newline>''
                        @ concat (map (\<lambda>doc.
                            if doc_type doc = ''image''
                            then ''[Image: '' @ doc_filename doc @ '']\<newline>''
                            else ''['' @ doc_filename doc @ '']: ''
                                 @ (case doc_text doc of
                                      None \<Rightarrow> ''undefined'' | Some t \<Rightarrow> take 500 t)
                                 @ ''...\<newline>'') frags)))\<rparr>
                # historyForSession st (opt_sessionId opts)
                @ [\<lparr>role = ''user'', content = userMessage\<rparr>])
               (build_call_options st opts) of
           Inl e \<Rightarrow> Inl (agent_error e)
         | Inr response \<Rightarrow> Inr (response, summaries frags))"
    using general [of frags] unfolding fmt [of frags] .
  have b: "search (searchQuery_of userMessage) (Some 5) = Inr []
      \<and> createProvider (or_str (opt_provider opts) (defaultProvider (llm st))) = Inr p \<longrightarrow>
    fst (generateResponse search vendor st userMessage opts)
      = (case vendor p
               (\<lparr>role = ''system'', content = Str (systemPrompt st)\<rparr>
                # historyForSession st (opt_sessionId opts)
                @ [\<lparr>role = ''user'', content = userMessage\<rparr>])
               (build_call_options st opts) of
           Inl e \<Rightarrow> Inl (agent_error e)
         | Inr response \<Rightarrow> Inr (response, summaries []))"
    using general [of "[]"] by (simp add: build_context_def)
  from a b pricing_search pricing_scenario pricing_substring show ?thesis
    by (intro conjI)
qed

lemma system_message_augmented_at_pricing:
  "file_kb [(''d1'', pricing_doc)] (searchQuery_of (Str ''what is the premium plan price'')) (Some 5)
     = Inr [with_score pricing_doc 2 (1 / 3)]
   \<and> createProvider (or_str (opt_provider no_options) (defaultProvider (llm helpful_agent)))
     = Inr OpenAIProvider
   \<and> fst (generateResponse (file_kb [(''d1'', pricing_doc)]) echo_system_vendor helpful_agent
          (Str ''what is the premium plan price'') no_options)
       = Inr (\<lparr>res_content = ''You are helpful.\<newline>\<newline>Relevant knowledge:\<newline>[pricing.md]: Our premium plan costs $20/month...\<newline>'',
                res_usage = (0, 0, 0), res_model = ''gpt-4'', res_provider = ''openai''\<rparr>,
              [(''d1'', ''pricing.md'', ''md'', 1 / 3)])"
proof -
  have "fst (generateResponse (file_kb [(''d1'', pricing_doc)]) echo_system_vendor helpful_agent
          (Str ''what is the premium plan price'') no_options)
      = (case echo_system_vendor OpenAIProvider
               (\<lparr>role = ''system'',
                 content = Str (systemPrompt helpful_agent
                   @ ''\<newline>\<newline>Relevant knowledge:\<newline>''
                   @ ''['' @ doc_filename (with_score pricing_doc 2 (1 / 3)) @ '']: ''
                   @ (case doc_text (with_score pricing_doc 2 (1 / 3)) of
                        None \<Rightarrow> ''undefined'' | Some t \<Rightarrow> take 500 t)
                   @ ''...\<newline>'')\<rparr>
                # historyForSession helpful_agent (opt_sessionId no_options)
                @ [\<lparr>role = ''user'', content = Str ''what is the premium plan price''\<rparr>])
               (build_call_options helpful_agent no_options) of
           Inl e \<Rightarrow> Inl (agent_error e)
         | Inr response \<Rightarrow> Inr (response, summaries [with_score pricing_doc 2 (1 / 3)]))"
    using system_message_augmented
          [of "file_kb [(''d1'', pricing_doc)]" "Str ''what is the premium plan price''"
              "[with_score pricing_doc 2 (1 / 3)]" no_options helpful_agent OpenAIProvider
              echo_system_vendor, THEN conjunct1]
        pricing_hits default_provider_resolves
    by (simp add: with_score_def pricing_doc_def)
  then have "fst (generateResponse (file_kb [(''d1'', pricing_doc)]) echo_system_vendor
          helpful_agent (Str ''what is the premium plan price'') no_options)
       = Inr (\<lparr>res_content = ''You are helpful.\<newline>\<newline>Relevant knowledge:\<newline>[pricing.md]: Our premium plan costs $20/month...\<newline>'',
                res_usage = (0, 0, 0), res_model = ''gpt-4'', res_provider = ''openai''\<rparr>,
              [(''d1'', ''pricing.md'', ''md'', 1 / 3)])"
    by (simp add: echo_system_vendor_def helpful_agent_def with_score_def pricing_doc_def
          historyForSession_def no_options_def truthy_str_def build_call_options_def or_str_def
          or_int_def or_rat_def example_llm_def summaries_def js_string_def)
  with pricing_hits default_provider_resolves show ?thesis
    by (intro conjI)
qed

text \<open>
  C4 fails on the code for a text fragment without text. A document found on disk at
  start-up is stored with the type \<open>text\<close> and no \<open>text\<close>; the empty term of a query
  with a trailing space matches it, and \<open>doc.text?.substring(0, 500)\<close> interpolates as
  \<open>undefined\<close>: the system message sent to the vendor reads
  \<open>[d9.md]: undefined...\<close> where the first 500 characters of the text, none here, are
  claimed.
\<close>

theorem textless_fragment_prints_undefined:
  "map score (searchDocuments [(''d9'', startup_doc)] ''plan '' (Some 5)) = [1]
   \<and> fst (generateResponse (file_kb [(''d9'', startup_doc)]) echo_system_vendor helpful_agent
          (Parts [TextItem ''plan '']) no_options)
       = Inr (\<lparr>res_content = ''You are helpful.\<newline>\<newline>Relevant knowledge:\<newline>[d9.md]: undefined...\<newline>'',
                res_usage = (0, 0, 0), res_model = ''gpt-4'', res_provider = ''openai''\<rparr>,
              [(''d9'', ''d9.md'', ''text'', 1 / 2)])"
  by code_simp

text \<open>
  C6. \<open>createProvider\<close> resolves a name by its lower-cased form, so names that differ
  only in case resolve alike; \<open>gemini\<close> gives the Google adapter and \<open>claude\<close> the
  Anthropic adapter; a name whose lower-cased form is none of the seven supported ones,
  such as \<open>llama-farm\<close>, yields the error \<open>Unsupported provider: \<close> with the name, and
  no adapter. When the resolution fails inside \<open>generateResponse\<close> the vendor is never
  called: the outcome does not depend on it.
\<close>

theorem createProvider_resolution:
  "(toLowerCase a = toLowerCase b \<longrightarrow>
      (\<forall>p. createProvider a = Inr p \<longleftrightarrow> createProvider b = Inr p)
      \<and> (isl (createProvider a) \<longleftrightarrow> isl (createProvider b)))
   \<and> createProvider ''gemini'' = Inr GoogleProvider
   \<and> createProvider ''claude'' = Inr AnthropicProvider
   \<and> createProvider ''Gemini'' = Inr GoogleProvider
   \<and> createProvider ''CLAUDE'' = Inr AnthropicProvider
   \<and> (toLowerCase n \<notin> {''openai'', ''google'', ''gemini'', ''anthropic'', ''claude'',
                          ''mistral'', ''fireworks''} \<longrightarrow>
        createProvider n = Inl (Error (''Unsupported provider: '' @ n)))
   \<and> createProvider ''llama-farm'' = Inl (Error ''Unsupported provider: llama-farm'')
   \<and> (createProvider (or_str (opt_provider opts) (defaultProvider (llm st))) = Inl x \<longrightarrow>
        generateResponse search vendor st userMessage opts
          = generateResponse search vendor' st userMessage opts
        \<and> isl (fst (generateResponse search vendor st userMessage opts))
        \<and> snd (generateResponse search vendor st userMessage opts) = st)"
proof -
  have ci: "toLowerCase a = toLowerCase b \<longrightarrow>
      (\<forall>p. createProvider a = Inr p \<longleftrightarrow> createProvider b = Inr p)
      \<and> (isl (createProvider a) \<longleftrightarrow> isl (createProvider b))"
    by (simp add: createProvider_def Let_def)
  have g: "createProvider ''gemini'' = Inr GoogleProvider" by code_simp
  have c: "createProvider ''claude'' = Inr AnthropicProvider" by code_simp
  have g2: "createProvider ''Gemini'' = Inr GoogleProvider" by code_simp
  have c2: "createProvider ''CLAUDE'' = Inr AnthropicProvider" by code_simp
  have u: "toLowerCase n \<notin> {''openai'', ''google'', ''gemini'', ''anthropic'', ''claude'',
                          ''mistral'', ''fireworks''} \<longrightarrow>
        createProvider n = Inl (Error (''Unsupported provider: '' @ n))"
    by (simp add: createProvider_def Let_def)
  have l: "createProvider ''llama-farm'' = Inl (Error ''Unsupported provider: llama-farm'')"
    by code_simp
  have v: "createProvider (or_str (opt_provider opts) (defaultProvider (llm st))) = Inl x \<longrightarrow>
        generateResponse search vendor st userMessage opts
          = generateResponse search vendor' st userMessage opts
        \<and> isl (fst (generateResponse search vendor st userMessage opts))
        \<and> snd (generateResponse search vendor st userMessage opts) = st"
    by (auto simp: generateResponse_def Let_def split: sum.splits)
  from ci g c g2 c2 u l v show ?thesis by (intro conjI)
qed

theorem createProvider_resolution_witness:
  "toLowerCase ''OpenAI'' = toLowerCase ''openai''
   \<and> createProvider ''OpenAI'' = Inr OpenAIProvider
   \<and> createProvider ''openai'' = Inr OpenAIProvider
   \<and> toLowerCase ''llama-farm'' \<notin> {''openai'', ''google'', ''gemini'', ''anthropic'', ''claude'',
                          ''mistral'', ''fireworks''}
   \<and> createProvider ''llama-farm'' = Inl (Error ''Unsupported provider: llama-farm'')
   \<and> generateResponse (file_kb example_index) answering_vendor helpful_agent (Str ''hello'')
        llama_options
       = generateResponse (file_kb example_index) failing_vendor helpful_agent (Str ''hello'')
        llama_options
   \<and> fst (generateResponse (file_kb example_index) answering_vendor helpful_agent (Str ''hello'')
        llama_options)
       = Inl (Error ''Agent error: Unsupported provider: llama-farm'')"
proof -
  have lc: "toLowerCase ''OpenAI'' = toLowerCase ''openai''" by code_simp
  have o: "createProvider ''openai'' = Inr OpenAIProvider" by code_simp
  have nm: "toLowerCase ''llama-farm'' \<notin> {''openai'', ''google'', ''gemini'', ''anthropic'',
              ''claude'', ''mistral'', ''fireworks''}"
    by code_simp
  have pn: "createProvider (or_str (opt_provider llama_options) (defaultProvider (llm helpful_agent)))
     = Inl (Error ''Unsupported provider: llama-farm'')"
    by code_simp
  have r: "fst (generateResponse (file_kb example_index) answering_vendor helpful_agent
        (Str ''hello'') llama_options)
       = Inl (Error ''Agent error: Unsupported provider: llama-farm'')"
    by code_simp
  show ?thesis
    using createProvider_resolution
            [of "''OpenAI''" "''openai''" "''llama-farm''" llama_options helpful_agent
                "Error ''Unsupported provider: llama-farm''" "file_kb example_index"
                answering_vendor "Str ''hello''" failing_vendor]
          lc o nm pn r
    by simp
qed

text \<open>
  C9 fails on the code at the boundary values. With \<open>temperature: 0\<close> and
  \<open>maxTokens: 0\<close> supplied by the caller, \<open>options.temperature || default\<close> and
  \<open>options.maxTokens || default\<close> hand the configured defaults 0.7 and 4000 to the
  adapter: a vendor that answers only at temperature 0 is called with another one.
\<close>

theorem zero_temperature_is_replaced:
  "build_call_options helpful_agent
      \<lparr>opt_provider = None, opt_model = None, opt_maxTokens = Some 0,
       opt_temperature = Some 0, opt_sessionId = None\<rparr>
     = \<lparr>model = ''gpt-4'', maxTokens = 4000, temperature = 7 / 10\<rparr>
   \<and> fst (generateResponse (file_kb example_index) zero_temperature_vendor helpful_agent
            (Str ''hello'')
            \<lparr>opt_provider = None, opt_model = None, opt_maxTokens = None,
             opt_temperature = Some 0, opt_sessionId = None\<rparr>)
       = Inl (Error ''Agent error: temperature is not 0'')"
  by code_simp

section \<open>Properties of the adapters and of deletion\<close>

lemma js_split_no_sep: "sep \<notin> set s \<Longrightarrow> js_split sep s = [s]"
  by (induction s) auto

lemma js_split_first: "sep \<notin> set a \<Longrightarrow> js_split sep (a @ sep # b) = a # js_split sep b"
  by (induction a) auto

lemma image_payload_data_url:
  "CHR '','' \<notin> set header \<Longrightarrow> CHR '','' \<notin> set payload \<Longrightarrow>
   image_payload (header @ '','' @ payload) = Some payload"
  by (simp add: image_payload_def js_index_def js_split_first js_split_no_sep)

lemma anthropic_media_type_fixed:
  "anthropic_item (ImageUrlItem url) = AImage ''base64'' ''image/jpeg'' (image_payload url)"
  by simp

lemma deleteDocument_then_not_found:
  assumes "map_of (documents kb) i = Some doc" and "doc_path doc \<in> files kb"
  shows "fst (deleteDocument kb i) = Inr True
     \<and> fst (deleteDocument (snd (deleteDocument kb i)) i) = Inl (Error ''Document not found'')"
  using assms by (simp add: deleteDocument_def unlink_def delete_conv')

lemma supabase_delete_always_true:
  "fst (supabase_deleteDocument None table i) = Inr True"
  by (simp add: supabase_deleteDocument_def delete_eq_id_def)

text \<open>
  C5 fails on the code for the media type. Both adapters take the payload after the comma
  of the data URL, and both write the constant \<open>image/jpeg\<close> as the media type: a
  message carrying \<open>data:image/png;base64,iVBORw0KGgo=\<close> is translated with the payload
  \<open>iVBORw0KGgo=\<close> and the media type \<open>image/jpeg\<close>.
\<close>

theorem png_sent_as_jpeg:
  "anthropic_formatMessages [png_message]
     = (Str [],
        [\<lparr>a_role = ''user'',
          a_content = ABlocks [AText ''What is this?'',
                               AImage ''base64'' ''image/jpeg'' (Some ''iVBORw0KGgo='')]\<rparr>])
   \<and> google_formatMessages [png_message]
     = Inr [\<lparr>g_role = ''user'',
             g_parts = [\<lparr>p_text = Some (Str ''What is this?''), p_inline_data = None\<rparr>,
                        \<lparr>p_text = None,
                         p_inline_data = Some (''image/jpeg'', Some ''iVBORw0KGgo='')\<rparr>]\<rparr>]"
  by code_simp

text \<open>
  C8 fails on the code for the remote index. \<open>SupabaseKnowledgeBase.deleteDocument\<close>
  returns \<open>true\<close> whenever the request reports no error, also when no row matches: a
  second deletion of the same identifier succeeds again. The local index answers the
  second deletion with \<open>Document not found\<close>.
\<close>

theorem supabase_delete_succeeds_twice:
  "fst (supabase_deleteDocument None {''42''} ''42'') = Inr True
   \<and> fst (supabase_deleteDocument None (snd (supabase_deleteDocument None {''42''} ''42'')) ''42'')
       = Inr True
   \<and> fst (deleteDocument local_kb ''d1'') = Inr True
   \<and> fst (deleteDocument (snd (deleteDocument local_kb ''d1'')) ''d1'')
       = Inl (Error ''Document not found'')"
  by code_simp

end
